theory Spec2Isabelle
  imports Complex_Main "HOL-Library.Sublist"
begin

section \<open>Data model of background.js\<close>

text \<open>
  The background script of Adaptive Tab Bar Colour (src/scr/background.js). JavaScript
  numbers are modelled as \<^typ>\<open>real\<close>: the theorems about numeric values below are stated
  at inputs where every intermediate value is exactly representable and no division by
  zero occurs; all other theorems concern control flow only.
\<close>

record colour =
  red :: real
  green :: real
  blue :: real
  alpha :: real

text \<open>The argument of \<open>setFrameColour\<close>: "in rgb object" or "a colour code" (a string).\<close>

datatype colour_value = Code string | Literal colour

text \<open>
  Errors thrown by the script. \<open>RegExp_outside_fragment\<close> is no JavaScript error: it marks a
  regular expression that the fragment modelled below does not cover.
\<close>

datatype js_error = TypeError | SyntaxError | RegExp_outside_fragment

text \<open>
  The fields of \<open>pref\<close> (an instance of preference.js, not under src/) that background.js
  reads. \<open>customRule\<close> is a JavaScript object; it is kept as an association list in
  \<open>for ... in\<close> enumeration order.
\<close>

record preference =
  allowDarkLight :: bool
  dynamic :: bool
  noThemeColour :: bool
  minContrast_light :: real
  minContrast_dark :: real
  tabbar :: real
  tabSelected :: real
  toolbar :: real
  toolbarBorder :: real
  toolbarField :: real
  toolbarFieldBorder :: real
  toolbarFieldOnFocus :: real
  sidebar :: real
  sidebarBorder :: real
  popup :: real
  popupBorder :: real
  customRule :: "(string \<times> colour_value) list"

text \<open>
  The object \<open>current\<close>. Its \<open>scheme\<close> is a JavaScript string; the script only ever stores
  "light" or "dark" there (the initial value and the results of \<open>getCurrentScheme\<close>). The
  tables indexed by a scheme have the two properties \<open>light\<close> and \<open>dark\<close>; the model reads
  any other key as an absent property.
\<close>

record current =
  scheme :: string
  homeBackground_light :: colour
  homeBackground_dark :: colour
  fallbackColour_light :: colour
  fallbackColour_dark :: colour

definition reversedScheme :: "current \<Rightarrow> string" where
  "reversedScheme cur = (if scheme cur = ''light'' then ''dark'' else ''light'')"

text \<open>
  \<open>getCurrentScheme\<close>, lines 97 to 105, as a function of the browser's setting
  \<open>overrideContentColorScheme\<close> and of \<open>darkModeDetection?.matches\<close> (\<open>None\<close> when the media
  query list is missing).
\<close>

definition getCurrentScheme :: "string \<Rightarrow> bool option \<Rightarrow> string" where
  "getCurrentScheme webAppearanceSetting darkModeDetection_matches =
     (if webAppearanceSetting = ''light'' \<or> webAppearanceSetting = ''dark'' then
        webAppearanceSetting
      else if darkModeDetection_matches = Some True then ''dark'' else ''light'')"

section \<open>Colour primitives (colour.js)\<close>

text \<open>
  Modelled from the spec: colour.js is not under src/. \<open>rgba([r, g, b, a])\<close> builds the
  spec's colour value of four channels from an array literal.
\<close>

definition rgba_array :: "real \<Rightarrow> real \<Rightarrow> real \<Rightarrow> real \<Rightarrow> colour" where
  "rgba_array x y z w = \<lparr>red = x, green = y, blue = z, alpha = w\<rparr>"

text \<open>
  Modelled from the spec: colour.js is not under src/. The spec names the "standard
  relative-luminance-based ratio formula" (WCAG); this is its channel linearisation,
  for a channel given on the scale 0..255.
\<close>

definition linear_channel :: "real \<Rightarrow> real" where
  "linear_channel v =
     (if v / 255 \<le> 0.03928 then v / 255 / 12.92
      else ((v / 255 + 0.055) / 1.055) powr 2.4)"

text \<open>
  Modelled from the spec: colour.js is not under src/. WCAG relative luminance, on
  the scale 0..255 that the spec's formula \<open>255 - luminance(color)\<close> presupposes.
\<close>

definition relativeLuminance :: "colour \<Rightarrow> real" where
  "relativeLuminance c =
     255 * (0.2126 * linear_channel (red c) + 0.7152 * linear_channel (green c)
            + 0.0722 * linear_channel (blue c))"

text \<open>
  Modelled from the spec: colour.js is not under src/. The WCAG ratio
  \<open>(L1 + 0.05) / (L2 + 0.05)\<close> of the lighter over the darker colour, with the
  offset scaled to 0..255.
\<close>

definition contrastRatio :: "colour \<Rightarrow> colour \<Rightarrow> real" where
  "contrastRatio c1 c2 =
     (let l1 = relativeLuminance c1; l2 = relativeLuminance c2
      in (max l1 l2 + 12.75) / (min l1 l2 + 12.75))"

text \<open>
  Modelled from the spec: colour.js is not under src/. The spec's "linear dimming
  transform" by "a signed magnitude", "monotonic and bounded": a positive magnitude
  moves every channel linearly towards 255, a negative one towards 0, magnitude 0
  leaves the colour as it is.
\<close>

definition dimColour :: "colour \<Rightarrow> real \<Rightarrow> colour" where
  "dimColour c d =
     (if d > 0 then
        c\<lparr>red := red c + min d 1 * (255 - red c),
          green := green c + min d 1 * (255 - green c),
          blue := blue c + min d 1 * (255 - blue c)\<rparr>
      else if d < 0 then
        c\<lparr>red := (1 + max d (- 1)) * red c,
          green := (1 + max d (- 1)) * green c,
          blue := (1 + max d (- 1)) * blue c\<rparr>
      else c)"

text \<open>
  Modelled from the spec: colour.js is not under src/. \<open>rgba\<close> applied to the result
  of \<open>dimColour\<close> yields the same colour as a value of the RGBA type.
\<close>

definition rgba :: "colour \<Rightarrow> colour" where
  "rgba c = c"

section \<open>Contrast correction\<close>

record correctionResult =
  colour_of :: colour
  scheme_of :: string

text \<open>
  \<open>contrastCorrection\<close>, lines 288 to 306. The function has no \<open>return\<close> after its last
  \<open>else if\<close>; falling through yields \<open>undefined\<close>, which is \<open>None\<close> here.
\<close>

definition contrastCorrection ::
  "preference \<Rightarrow> current \<Rightarrow> colour \<Rightarrow> correctionResult option" where
  "contrastCorrection pref cur colour =
     (let contrastRatio_dark = contrastRatio colour (rgba_array 255 255 255 1);
          contrastRatio_light = contrastRatio colour (rgba_array 0 0 0 1);
          eligibility_dark = (contrastRatio_dark > minContrast_dark pref);
          eligibility_light = (contrastRatio_light > minContrast_light pref)
      in if eligibility_light \<and>
            (scheme cur = ''light'' \<or> (scheme cur = ''dark'' \<and> allowDarkLight pref))
         then Some \<lparr>colour_of = colour, scheme_of = ''light''\<rparr>
         else if eligibility_dark \<and>
            (scheme cur = ''dark'' \<or> (scheme cur = ''light'' \<and> allowDarkLight pref))
         then Some \<lparr>colour_of = colour, scheme_of = ''dark''\<rparr>
         else if scheme cur = ''light'' then
           (let d = ((minContrast_light pref / contrastRatio_light - 1)
                         * relativeLuminance colour)
                      / (255 - relativeLuminance colour)
            in Some \<lparr>colour_of = rgba (dimColour colour d), scheme_of = ''light''\<rparr>)
         else if scheme cur = ''dark'' then
           (let d = contrastRatio_dark / minContrast_dark pref - 1
            in Some \<lparr>colour_of = rgba (dimColour colour d), scheme_of = ''dark''\<rparr>)
         else None)"

section \<open>Colour codes and \<open>setFrameColour\<close>\<close>

text \<open>
  Property names that every plain JavaScript object inherits from \<open>Object.prototype\<close>.
  \<open>colourCode[colour]\<close> and the \<open>in\<close> operator both see them.
\<close>

definition Object_prototype_keys :: "string list" where
  "Object_prototype_keys =
     [''constructor'', ''hasOwnProperty'', ''isPrototypeOf'', ''propertyIsEnumerable'',
      ''toLocaleString'', ''toString'', ''valueOf'', ''__proto__'',
      ''__defineGetter__'', ''__defineSetter__'', ''__lookupGetter__'',
      ''__lookupSetter__'']"

text \<open>
  An entry of the table \<open>colourCode\<close>: the properties \<open>light\<close> and \<open>dark\<close>, each a colour
  or \<open>undefined\<close>. \<open>entry_get e s\<close> is the property access \<open>e[s]\<close> for the scheme keys.
\<close>

record code_entry =
  light :: "colour option"
  dark :: "colour option"

definition entry_get :: "code_entry \<Rightarrow> string \<Rightarrow> colour option" where
  "entry_get e s = (if s = ''light'' then light e else if s = ''dark'' then dark e else None)"

text \<open>
  \<open>colourCode[code]\<close>, lines 41 to 64. \<open>HOME\<close> and \<open>FALLBACK\<close> are getters reading \<open>current\<close>.
  An inherited property name yields an object with neither \<open>light\<close> nor \<open>dark\<close>; any
  other name yields \<open>undefined\<close> (\<open>None\<close>).
\<close>

definition colourCode :: "current \<Rightarrow> string \<Rightarrow> code_entry option" where
  "colourCode cur code =
     (if code = ''HOME'' then
        Some \<lparr>light = Some (homeBackground_light cur), dark = Some (homeBackground_dark cur)\<rparr>
      else if code = ''FALLBACK'' then
        Some \<lparr>light = Some (fallbackColour_light cur), dark = Some (fallbackColour_dark cur)\<rparr>
      else if code = ''PLAINTEXT'' then
        Some \<lparr>light = Some (rgba_array 236 236 236 1), dark = Some (rgba_array 50 50 50 1)\<rparr>
      else if code = ''SYSTEM'' then
        Some \<lparr>light = Some (rgba_array 255 255 255 1), dark = Some (rgba_array 30 30 30 1)\<rparr>
      else if code = ''ADDON'' then
        Some \<lparr>light = Some (rgba_array 236 236 236 1), dark = Some (rgba_array 50 50 50 1)\<rparr>
      else if code = ''PDFVIEWER'' then
        Some \<lparr>light = Some (rgba_array 249 249 250 1), dark = Some (rgba_array 56 56 61 1)\<rparr>
      else if code = ''IMAGEVIEWER'' then
        Some \<lparr>light = None, dark = Some (rgba_array 33 33 33 1)\<rparr>
      else if code = ''DEFAULT'' then
        Some \<lparr>light = Some (rgba_array 255 255 255 1), dark = Some (rgba_array 28 27 34 1)\<rparr>
      else if code \<in> set Object_prototype_keys then Some \<lparr>light = None, dark = None\<rparr>
      else None)"

text \<open>
  What \<open>setFrameColour\<close> does, in order: a call of \<open>contrastCorrection\<close>, a call of
  \<open>applyTheme\<close> with its window, colour (possibly \<open>undefined\<close>) and scheme, or a thrown error.
\<close>

datatype call =
  ContrastCorrection colour
  | ApplyTheme nat "colour option" string
  | Throw js_error

fun is_ContrastCorrection :: "call \<Rightarrow> bool" where
  "is_ContrastCorrection (ContrastCorrection c) = True"
| "is_ContrastCorrection (ApplyTheme w c s) = False"
| "is_ContrastCorrection (Throw e) = False"

text \<open>
  \<open>setFrameColour\<close>, lines 314 to 327. A colour object is truthy and \<open>undefined\<close> is
  falsy. Reading a property of \<open>undefined\<close> (an unknown colour code; the result of a
  correction that fell through) throws a TypeError.
\<close>

definition setFrameColour :: "preference \<Rightarrow> current \<Rightarrow> nat \<Rightarrow> colour_value \<Rightarrow> call list" where
  "setFrameColour pref cur windowId colour =
     (case colour of
        Code code \<Rightarrow>
          (case colourCode cur code of
             None \<Rightarrow> [Throw TypeError]
           | Some entry \<Rightarrow>
               if entry_get entry (scheme cur) \<noteq> None then
                 [ApplyTheme windowId (entry_get entry (scheme cur)) (scheme cur)]
               else if entry_get entry (reversedScheme cur) \<noteq> None \<and> allowDarkLight pref then
                 [ApplyTheme windowId (entry_get entry (reversedScheme cur)) (reversedScheme cur)]
               else
                 (case colourCode cur ''FALLBACK'' of
                    None \<Rightarrow> [Throw TypeError]
                  | Some fallback \<Rightarrow>
                      [ApplyTheme windowId (entry_get fallback (scheme cur)) (scheme cur)]))
      | Literal c \<Rightarrow>
          ContrastCorrection c #
          (case contrastCorrection pref cur c of
             None \<Rightarrow> [Throw TypeError]
           | Some correctionResult \<Rightarrow>
               [ApplyTheme windowId (Some (colour_of correctionResult))
                  (scheme_of correctionResult)]))"

section \<open>Palette generation: \<open>applyTheme\<close>\<close>

text \<open>
  A value of the theme's \<open>colors\<close> object: the result of a \<open>dimColour\<close> call or a literal
  CSS string of the source.
\<close>

datatype theme_value = Dimmed colour | Css string

record theme =
  colors :: "(string \<times> theme_value) list"
  properties :: "(string \<times> string) list"

definition theme_light :: "preference \<Rightarrow> colour \<Rightarrow> theme" where
  "theme_light pref colour =
     \<lparr>colors =
        [(''frame'', Dimmed (dimColour colour (- tabbar pref * 1.5))),
         (''frame_inactive'', Dimmed (dimColour colour (- tabbar pref * 1.5))),
         (''tab_selected'', Dimmed (dimColour colour (- tabSelected pref * 1.5))),
         (''ntp_background'', Dimmed (dimColour colour 0)),
         (''toolbar'', Dimmed (dimColour colour (- toolbar pref * 1.5))),
         (''toolbar_top_separator'', Css ''rgba(0, 0, 0, 0)''),
         (''toolbar_bottom_separator'',
            Dimmed (dimColour colour ((- toolbarBorder pref - toolbar pref) * 1.5))),
         (''toolbar_field'', Dimmed (dimColour colour (- toolbarField pref * 1.5))),
         (''toolbar_field_border'', Css ''rgba(0, 0, 0, 0)''),
         (''toolbar_field_focus'', Dimmed (dimColour colour (- toolbarFieldOnFocus pref * 1.5))),
         (''toolbar_field_border_focus'', Css ''rgb(130, 180, 245)''),
         (''sidebar'', Dimmed (dimColour colour (- sidebar pref * 1.5))),
         (''sidebar_border'',
            Dimmed (dimColour colour ((- sidebar pref - sidebarBorder pref) * 1.5))),
         (''popup'', Dimmed (dimColour colour (- popup pref * 1.5))),
         (''popup_border'', Dimmed (dimColour colour ((- popup pref - popupBorder pref) * 1.5))),
         (''tab_background_text'', Css ''rgb(30, 30, 30)''),
         (''tab_loading'', Css ''rgba(0, 0, 0, 0)''),
         (''tab_line'', Css ''rgba(0, 0, 0, 0)''),
         (''ntp_text'', Css ''rgb(0, 0, 0)''),
         (''toolbar_text'', Css ''rgb(0, 0, 0)''),
         (''toolbar_field_text'', Css ''rgba(0, 0, 0)''),
         (''popup_text'', Css ''rgb(0, 0, 0)''),
         (''sidebar_text'', Css ''rgb(0, 0, 0)''),
         (''button_background_hover'', Css ''rgba(0, 0, 0, 0.10)''),
         (''button_background_active'', Css ''rgba(0, 0, 0, 0.15)''),
         (''icons'', Css ''rgb(30, 30, 30)'')],
      properties = [(''color_scheme'', ''system''), (''content_color_scheme'', ''system'')]\<rparr>"

definition theme_dark :: "preference \<Rightarrow> colour \<Rightarrow> theme" where
  "theme_dark pref colour =
     \<lparr>colors =
        [(''frame'', Dimmed (dimColour colour (tabbar pref))),
         (''frame_inactive'', Dimmed (dimColour colour (tabbar pref))),
         (''tab_selected'', Dimmed (dimColour colour (tabSelected pref))),
         (''ntp_background'', Dimmed (dimColour colour 0)),
         (''toolbar'', Dimmed (dimColour colour (toolbar pref))),
         (''toolbar_top_separator'', Css ''rgba(0, 0, 0, 0)''),
         (''toolbar_bottom_separator'',
            Dimmed (dimColour colour (toolbarBorder pref + toolbar pref))),
         (''toolbar_field'', Dimmed (dimColour colour (toolbarField pref))),
         (''toolbar_field_border'', Dimmed (dimColour colour (toolbarFieldBorder pref))),
         (''toolbar_field_focus'', Dimmed (dimColour colour (toolbarFieldOnFocus pref))),
         (''toolbar_field_border_focus'', Css ''rgb(70, 118, 160)''),
         (''sidebar'', Dimmed (dimColour colour (sidebar pref))),
         (''sidebar_border'', Dimmed (dimColour colour (sidebar pref + sidebarBorder pref))),
         (''popup'', Dimmed (dimColour colour (popup pref))),
         (''popup_border'', Dimmed (dimColour colour (popup pref + popupBorder pref))),
         (''tab_background_text'', Css ''rgb(225, 225, 225)''),
         (''tab_loading'', Css ''rgba(0, 0, 0, 0)''),
         (''tab_line'', Css ''rgba(0, 0, 0, 0)''),
         (''ntp_text'', Css ''rgb(255, 255, 255)''),
         (''toolbar_text'', Css ''rgb(255, 255, 255)''),
         (''toolbar_field_text'', Css ''rgb(255, 255, 255)''),
         (''popup_text'', Css ''rgb(225, 225, 225)''),
         (''sidebar_text'', Css ''rgb(225, 225, 225)''),
         (''button_background_active'', Css ''rgba(255, 255, 255, 0.15)''),
         (''button_background_hover'', Css ''rgba(255, 255, 255, 0.10)''),
         (''icons'', Css ''rgb(225, 225, 225)'')],
      properties = [(''color_scheme'', ''system''), (''content_color_scheme'', ''system'')]\<rparr>"

text \<open>
  \<open>applyTheme\<close>, lines 336 to 422: the list of \<open>browser.theme.update(windowId, theme)\<close>
  calls it makes. The two \<open>if\<close> statements are separate, not an \<open>else if\<close> chain.
\<close>

definition applyTheme :: "preference \<Rightarrow> nat \<Rightarrow> colour \<Rightarrow> string \<Rightarrow> (nat \<times> theme) list" where
  "applyTheme pref windowId colour colourScheme =
     (if colourScheme = ''light'' then [(windowId, theme_light pref colour)] else [])
     @ (if colourScheme = ''dark'' then [(windowId, theme_dark pref colour)] else [])"

text \<open>
  The value stored under a key of the \<open>colors\<close> object of the theme that \<open>applyTheme\<close>
  hands to the browser, \<open>None\<close> when no theme is applied or the key is absent.
\<close>

definition palette :: "preference \<Rightarrow> colour \<Rightarrow> string \<Rightarrow> string \<Rightarrow> theme_value option" where
  "palette pref colour colourScheme key =
     (case applyTheme pref 0 colour colourScheme of
        [] \<Rightarrow> None
      | (w, t) # rest \<Rightarrow> map_of (colors t) key)"

section \<open>Classification of about: pages\<close>

text \<open>
  An entry of \<open>default_aboutPageColour\<close> (default_values.js, not under src/): per scheme a
  colour string (non-empty, hence truthy) or \<open>undefined\<close>. The table and the conversion \<open>rgba\<close> of its strings
  (colour.js) are parameters of \<open>getAboutPageColour\<close>. The optional chaining
  \<open>table[pathname]?.[scheme]\<close> is \<open>undefined\<close> when the pathname has no entry.
\<close>

record table_entry =
  entry_light :: "string option"
  entry_dark :: "string option"

definition table_get ::
  "(string \<Rightarrow> table_entry option) \<Rightarrow> string \<Rightarrow> string \<Rightarrow> string option" where
  "table_get tbl name s =
     (case tbl name of
        None \<Rightarrow> None
      | Some e \<Rightarrow>
          if s = ''light'' then entry_light e else if s = ''dark'' then entry_dark e else None)"

text \<open>\<open>getAboutPageColour\<close>, lines 156 to 164.\<close>

definition getAboutPageColour ::
  "(string \<Rightarrow> colour_value) \<Rightarrow> (string \<Rightarrow> table_entry option) \<Rightarrow> preference \<Rightarrow> current
     \<Rightarrow> string \<Rightarrow> colour_value" where
  "getAboutPageColour rgba_string default_aboutPageColour pref cur pathname =
     (if table_get default_aboutPageColour pathname (scheme cur) \<noteq> None then
        rgba_string (the (table_get default_aboutPageColour pathname (scheme cur)))
      else if table_get default_aboutPageColour pathname (reversedScheme cur) \<noteq> None
              \<and> allowDarkLight pref then
        rgba_string (the (table_get default_aboutPageColour pathname (reversedScheme cur)))
      else Code ''DEFAULT'')"

section \<open>Classification of web pages: \<open>getWebPageColour\<close>\<close>

record tab =
  url :: string
  title :: string
  favIconUrl :: "string option"
  active :: bool
  windowId :: nat
  id_tab :: nat

text \<open>The message sent to the content script: its \<open>reason\<close> and the fields of \<open>conf\<close>.\<close>

record colour_request =
  reason :: string
  conf_dynamic :: bool
  conf_noThemeColour :: bool
  conf_customRule :: "colour_value option"

subsection \<open>The loop over the custom rules\<close>

text \<open>
  Line 201 declares \<open>const customRule = null\<close>. The assignments \<open>customRule = ...\<close> at lines
  205 and 214 target a constant binding, which JavaScript answers with a TypeError when
  the assignment is executed.
\<close>

definition assign_const :: "'a \<Rightarrow> js_error + 'a" where
  "assign_const v = Inl TypeError"

text \<open>How one run of a loop body ends when it does not throw.\<close>

datatype 'a completion = Normal 'a | Break 'a

text \<open>
  The body of the \<open>try\<close> block, lines 204 to 216, for the key \<open>site\<close>; the state is the
  value of \<open>customRule\<close> (\<open>None\<close> is \<open>null\<close>). \<open>URL_hostname\<close> stands for the platform's
  \<open>new URL(url).hostname\<close>: \<open>None\<close> when the constructor throws its TypeError.
\<close>

definition rule_body ::
  "(string \<Rightarrow> string option) \<Rightarrow> preference \<Rightarrow> string \<Rightarrow> string \<Rightarrow> colour_value option
     \<Rightarrow> js_error + colour_value option completion" where
  "rule_body URL_hostname pref url_string site customRule_var =
     (if url_string = site then
        (case assign_const (map_of (customRule pref) site) of
           Inl e \<Rightarrow> Inl e
         | Inr v \<Rightarrow> Inr (Break v))
      else
        (case URL_hostname url_string of
           None \<Rightarrow> Inl TypeError
         | Some hostname \<Rightarrow>
             if hostname = site then
               (case assign_const (map_of (customRule pref) site) of
                  Inl e \<Rightarrow> Inl e
                | Inr v \<Rightarrow> Inr (Break v))
             else Inr (Normal customRule_var)))"

text \<open>
  The loop \<open>for (const site in pref.customRule) { try { ... } catch (e) { continue; } }\<close>,
  lines 202 to 220, over the keys in enumeration order. An error of the body is caught
  and the loop goes on with the next key.
\<close>

fun for_in_customRule ::
  "(string \<Rightarrow> string option) \<Rightarrow> preference \<Rightarrow> string \<Rightarrow> string list \<Rightarrow> colour_value option
     \<Rightarrow> js_error + colour_value option" where
  "for_in_customRule URL_hostname pref url_string [] customRule_var = Inr customRule_var"
| "for_in_customRule URL_hostname pref url_string (site # sites) customRule_var =
     (case rule_body URL_hostname pref url_string site customRule_var of
        Inl e \<Rightarrow> for_in_customRule URL_hostname pref url_string sites customRule_var
      | Inr (Break v) \<Rightarrow> Inr v
      | Inr (Normal v) \<Rightarrow> for_in_customRule URL_hostname pref url_string sites v)"

text \<open>
  The same loop, lines 202 to 220, recording for every key it reaches how the body of
  that iteration ended: with an error (caught, \<open>continue\<close>), normally, or with \<open>break\<close>. The
  second component is the loop's result.
\<close>

fun for_in_customRule_trace ::
  "(string \<Rightarrow> string option) \<Rightarrow> preference \<Rightarrow> string \<Rightarrow> string list \<Rightarrow> colour_value option
     \<Rightarrow> (string \<times> (js_error + colour_value option completion)) list
        \<times> (js_error + colour_value option)" where
  "for_in_customRule_trace URL_hostname pref url_string [] customRule_var =
     ([], Inr customRule_var)"
| "for_in_customRule_trace URL_hostname pref url_string (site # sites) customRule_var =
     (case rule_body URL_hostname pref url_string site customRule_var of
        Inl e \<Rightarrow>
          ((site, Inl e)
             # fst (for_in_customRule_trace URL_hostname pref url_string sites customRule_var),
           snd (for_in_customRule_trace URL_hostname pref url_string sites customRule_var))
      | Inr (Break v) \<Rightarrow> ([(site, Inr (Break v))], Inr v)
      | Inr (Normal v) \<Rightarrow>
          ((site, Inr (Normal v))
             # fst (for_in_customRule_trace URL_hostname pref url_string sites v),
           snd (for_in_customRule_trace URL_hostname pref url_string sites v)))"

text \<open>Whether a recorded iteration left the loop through \<open>break\<close>.\<close>

fun ended_with_break :: "js_error + 'a completion \<Rightarrow> bool" where
  "ended_with_break (Inl e) = False"
| "ended_with_break (Inr (Normal v)) = False"
| "ended_with_break (Inr (Break v)) = True"

subsection \<open>A fragment of JavaScript regular expressions\<close>

text \<open>
  Line 242 builds \<open>new RegExp(`https?:\/\/${tab.title}$`)\<close>: the title is spliced into the
  pattern as it is. The fragment modelled here has literal characters, \<open>.\<close> (any character
  but a line terminator), the quantifier \<open>?\<close> after a single character and the assertion
  \<open>$\<close> (end of input, no flags). A pattern with any other syntax character is outside the
  fragment, except that an opening parenthesis in a pattern with no closing parenthesis,
  no bracket and no backslash is an unterminated group: a SyntaxError of the constructor.
  Characters are bytes here.
\<close>

datatype rx_atom = Lit char | AnyChar

datatype rx_item = One rx_atom | Opt rx_atom | EndAnchor

definition rx_other_syntax :: "char \<Rightarrow> bool" where
  "rx_other_syntax c = (c \<in> set ''^*+()[]{}|'' \<or> c = CHR 0x5C)"

definition rx_atom_of :: "char \<Rightarrow> rx_atom" where
  "rx_atom_of c = (if c = CHR ''.'' then AnyChar else Lit c)"

fun rx_parse :: "string \<Rightarrow> rx_item list option" where
  "rx_parse [] = Some []"
| "rx_parse [c] =
     (if c = CHR ''$'' then Some [EndAnchor]
      else if c = CHR ''?'' \<or> rx_other_syntax c then None
      else Some [One (rx_atom_of c)])"
| "rx_parse (c # d # cs) =
     (if c = CHR ''$'' then
        (if d = CHR ''?'' then None else map_option ((#) EndAnchor) (rx_parse (d # cs)))
      else if c = CHR ''?'' \<or> rx_other_syntax c then None
      else if d = CHR ''?'' then
        (case cs of
           [] \<Rightarrow> Some [Opt (rx_atom_of c)]
         | e # es \<Rightarrow>
             if e = CHR ''?'' then None
             else map_option ((#) (Opt (rx_atom_of c))) (rx_parse cs))
      else map_option ((#) (One (rx_atom_of c))) (rx_parse (d # cs)))"

fun atom_matches :: "rx_atom \<Rightarrow> char \<Rightarrow> bool" where
  "atom_matches (Lit c) x = (x = c)"
| "atom_matches AnyChar x = (x \<noteq> CHR 0x0A \<and> x \<noteq> CHR 0x0D)"

text \<open>Whether the items match a prefix of the input.\<close>

fun rx_match_here :: "rx_item list \<Rightarrow> string \<Rightarrow> bool" where
  "rx_match_here [] s = True"
| "rx_match_here (One a # items) s =
     (case s of [] \<Rightarrow> False | x # xs \<Rightarrow> atom_matches a x \<and> rx_match_here items xs)"
| "rx_match_here (Opt a # items) s =
     ((case s of [] \<Rightarrow> False | x # xs \<Rightarrow> atom_matches a x \<and> rx_match_here items xs)
      \<or> rx_match_here items s)"
| "rx_match_here (EndAnchor # items) s = (s = [] \<and> rx_match_here items s)"

text \<open>Whether the items match at some position of the input, as \<open>String.prototype.match\<close> searches.\<close>

fun rx_search :: "rx_item list \<Rightarrow> string \<Rightarrow> bool" where
  "rx_search items [] = rx_match_here items []"
| "rx_search items (x # xs) = (rx_match_here items (x # xs) \<or> rx_search items xs)"

definition unterminated_group :: "string \<Rightarrow> bool" where
  "unterminated_group pattern =
     (CHR ''('' \<in> set pattern \<and> CHR '')'' \<notin> set pattern \<and> CHR ''['' \<notin> set pattern
      \<and> CHR 0x5C \<notin> set pattern)"

text \<open>\<open>s.match(new RegExp(pattern))\<close> as a truth value, or the error thrown.\<close>

definition RegExp_match :: "string \<Rightarrow> string \<Rightarrow> js_error + bool" where
  "RegExp_match pattern s =
     (if unterminated_group pattern then Inl SyntaxError
      else case rx_parse pattern of
             None \<Rightarrow> Inl RegExp_outside_fragment
           | Some items \<Rightarrow> Inr (rx_search items s))"

text \<open>
  A character that stands for itself in a pattern and takes no part in the syntax of the
  fragment.
\<close>

definition plain_char :: "char \<Rightarrow> bool" where
  "plain_char c =
     (\<not> rx_other_syntax c \<and> c \<noteq> CHR ''.'' \<and> c \<noteq> CHR ''?'' \<and> c \<noteq> CHR ''$'')"

subsection \<open>\<open>getWebPageColour\<close>\<close>

text \<open>
  \<open>getWebPageColour\<close>, lines 199 to 250. The argument is \<open>None\<close> when the function is called
  without one (\<open>tab\<close> is then \<open>undefined\<close> and \<open>tab.url\<close> throws). \<open>sendMessage\<close> stands for
  \<open>browser.tabs.sendMessage\<close> and the content script behind it: the response's colour, or
  \<open>None\<close> when there is no response. The result is the list of messages sent and either
  the error thrown or the value returned.
\<close>

definition getWebPageColour ::
  "(string \<Rightarrow> string option) \<Rightarrow> (nat \<Rightarrow> colour_request \<Rightarrow> colour_value option) \<Rightarrow> preference
     \<Rightarrow> tab option \<Rightarrow> colour_request list \<times> (js_error + colour_value)" where
  "getWebPageColour URL_hostname sendMessage pref tab_arg =
     (case tab_arg of
        None \<Rightarrow> ([], Inl TypeError)
      | Some tab \<Rightarrow>
          (case for_in_customRule URL_hostname pref (url tab) (map fst (customRule pref)) None of
             Inl e \<Rightarrow> ([], Inl e)
           | Inr customRule_var \<Rightarrow>
               (let request = \<lparr>reason = ''COLOUR_REQUEST'', conf_dynamic = dynamic pref,
                                conf_noThemeColour = noThemeColour pref,
                                conf_customRule = customRule_var\<rparr>
                in ([request],
                    (case sendMessage (id_tab tab) request of
                       Some response_colour \<Rightarrow> Inr response_colour
                     | None \<Rightarrow>
                         if prefix ''data:image'' (url tab) then Inr (Code ''IMAGEVIEWER'')
                         else if suffix ''.pdf'' (url tab) \<or> suffix ''.pdf'' (title tab) then
                           Inr (Code ''PDFVIEWER'')
                         else if (case favIconUrl tab of
                                    None \<Rightarrow> False
                                  | Some icon \<Rightarrow> prefix ''chrome:'' icon) then
                           Inr (Code ''DEFAULT'')
                         else
                           (case RegExp_match (''https?://'' @ title tab @ ''$'') (url tab) of
                              Inl e \<Rightarrow> Inl e
                            | Inr matched \<Rightarrow>
                                if matched then Inr (Code ''PLAINTEXT'')
                                else Inr (Code ''FALLBACK'')))))))"

section \<open>Inbound messages: \<open>handleMessage\<close>\<close>

text \<open>
  The message: \<open>message?.reason\<close> (\<open>None\<close> when the message or its reason is unset) and
  \<open>message.response.colour\<close> (\<open>None\<close> when the message carries no response).
\<close>

record message =
  message_reason :: "string option"
  message_response :: "colour_value option"

text \<open>
  What \<open>handleMessage\<close> sets off: one of the functions \<open>initialise\<close>, \<open>prefUpdate\<close> and
  \<open>update\<close>, a call \<open>setFrameColour(windowId, colour)\<close>, an error thrown by the action (or
  the rejection of its promise), or the call of a function that \<open>actions\<close> inherits from
  \<open>Object.prototype\<close> and that returns, in which case no function of the script runs.
\<close>

datatype effect =
  Initialise
  | PrefUpdate
  | Update
  | SetFrameColour nat colour_value
  | Failed js_error
  | Inherited_call string

text \<open>
  Of the inherited properties, \<open>__proto__\<close> is an object and no function, and
  \<open>__defineGetter__\<close> and \<open>__defineSetter__\<close> reject a call without a function argument:
  \<open>actions[reason]()\<close> throws a TypeError for these three names. The other inherited
  functions return when called without arguments.
\<close>

definition not_callable_without_arguments :: "string list" where
  "not_callable_without_arguments = [''__proto__'', ''__defineGetter__'', ''__defineSetter__'']"

text \<open>\<open>reason in actions\<close>: the own keys of the object literal and the inherited ones.\<close>

definition in_actions :: "string option \<Rightarrow> bool" where
  "in_actions r =
     (case r of
        None \<Rightarrow> False
      | Some name \<Rightarrow>
          name \<in> set [''INIT_REQUEST'', ''UPDATE_REQUEST'', ''SCRIPT_LOADED'', ''COLOUR_UPDATE'']
          \<or> name \<in> set Object_prototype_keys)"

text \<open>
  \<open>handleMessage\<close>, lines 141 to 154, with \<open>sender.tab\<close> as its second argument (\<open>None\<close> when
  the sender has no tab). The action of \<open>SCRIPT_LOADED\<close> calls \<open>getWebPageColour()\<close> with no
  argument.
\<close>

definition handleMessage ::
  "(string \<Rightarrow> string option) \<Rightarrow> (nat \<Rightarrow> colour_request \<Rightarrow> colour_value option) \<Rightarrow> preference
     \<Rightarrow> message \<Rightarrow> tab option \<Rightarrow> colour_request list \<times> effect" where
  "handleMessage URL_hostname sendMessage pref msg sender_tab =
     (case sender_tab of
        None \<Rightarrow> ([], Update)
      | Some tab \<Rightarrow>
          if active tab \<and> in_actions (message_reason msg) then
            (if message_reason msg = Some ''INIT_REQUEST'' then ([], Initialise)
             else if message_reason msg = Some ''UPDATE_REQUEST'' then ([], PrefUpdate)
             else if message_reason msg = Some ''SCRIPT_LOADED'' then
               (case getWebPageColour URL_hostname sendMessage pref None of
                  (sent, Inl e) \<Rightarrow> (sent, Failed e)
                | (sent, Inr colour) \<Rightarrow> (sent, SetFrameColour (windowId tab) colour))
             else if message_reason msg = Some ''COLOUR_UPDATE'' then
               (case message_response msg of
                  None \<Rightarrow> ([], Failed TypeError)
                | Some colour \<Rightarrow> ([], SetFrameColour (windowId tab) colour))
             else if the (message_reason msg) \<in> set not_callable_without_arguments then
               ([], Failed TypeError)
             else ([], Inherited_call (the (message_reason msg))))
          else ([], Update))"

section \<open>Example inputs\<close>

text \<open>Concrete inputs at which the definitions are evaluated below.\<close>

definition pref0 :: preference where
  "pref0 = \<lparr>allowDarkLight = False, dynamic = True, noThemeColour = False,
     minContrast_light = 4.5, minContrast_dark = 4.5,
     tabbar = 0, tabSelected = 0.1, toolbar = 0, toolbarBorder = 0,
     toolbarField = 0.05, toolbarFieldBorder = 0.1, toolbarFieldOnFocus = 0.05,
     sidebar = 0.05, sidebarBorder = 0.05, popup = 0.05, popupBorder = 0.05,
     customRule = []\<rparr>"

definition current_of :: "string \<Rightarrow> current" where
  "current_of s = \<lparr>scheme = s,
     homeBackground_light = rgba_array 255 255 255 1,
     homeBackground_dark = rgba_array 43 42 51 1,
     fallbackColour_light = rgba_array 255 255 255 1,
     fallbackColour_dark = rgba_array 43 42 51 1\<rparr>"

definition example_aboutPageColour :: "string \<Rightarrow> table_entry option" where
  "example_aboutPageColour name =
     (if name = ''privatebrowsing'' then
        Some \<lparr>entry_light = None, entry_dark = Some ''rgb(37, 0, 62)''\<rparr>
      else if name = ''blank'' then
        Some \<lparr>entry_light = Some ''rgb(255, 255, 255)'', entry_dark = Some ''rgb(28, 27, 34)''\<rparr>
      else None)"

definition example_rgba_string :: "string \<Rightarrow> colour_value" where
  "example_rgba_string str =
     (if str = ''rgb(37, 0, 62)'' then Literal (rgba_array 37 0 62 1)
      else if str = ''rgb(255, 255, 255)'' then Literal (rgba_array 255 255 255 1)
      else if str = ''rgb(28, 27, 34)'' then Literal (rgba_array 28 27 34 1)
      else Code str)"

definition example_tab :: tab where
  "example_tab = \<lparr>url = ''https://example.com/'', title = ''Example Domain'',
     favIconUrl = None, active = True, windowId = 3, id_tab = 12\<rparr>"

definition example_rules :: "(string \<times> colour_value) list" where
  "example_rules = [(''https://example.com/'', Literal (rgba_array 255 0 0 1)),
                    (''example.com'', Code ''HOME'')]"

text \<open>
  Custom rules whose first key is no URL at all, whose second key is a hostname and whose
  third key is another hostname.
\<close>

definition example_keys :: "string list" where
  "example_keys = [''not a url'', ''example.com'', ''other.org'']"

definition example_keyed_rules :: "(string \<times> colour_value) list" where
  "example_keyed_rules = [(''not a url'', Code ''HOME''), (''example.com'', Code ''HOME''),
                          (''other.org'', Literal (rgba_array 0 0 255 1))]"

text \<open>A stand-in for the platform's URL parser, defined on the one URL the examples parse.\<close>

definition example_URL_hostname :: "string \<Rightarrow> string option" where
  "example_URL_hostname u =
     (if u = ''https://example.com/'' then Some ''example.com'' else None)"

text \<open>A content script that gives no response.\<close>

definition no_response :: "nat \<Rightarrow> colour_request \<Rightarrow> colour_value option" where
  "no_response i request = None"

text \<open>A plain-text document with a query string: the tab title is the URL without its scheme.\<close>

definition text_tab :: tab where
  "text_tab = \<lparr>url = ''https://example.com/data.txt?raw=1'',
     title = ''example.com/data.txt?raw=1'',
     favIconUrl = None, active = True, windowId = 3, id_tab = 12\<rparr>"

definition redirect_tab :: tab where
  "redirect_tab = \<lparr>url = ''https://example.com/?next=http://readme'', title = ''readme'',
     favIconUrl = None, active = True, windowId = 3, id_tab = 12\<rparr>"

definition group_tab :: tab where
  "group_tab = \<lparr>url = ''https://example.com/notes'', title = ''Notes (draft'',
     favIconUrl = None, active = True, windowId = 3, id_tab = 12\<rparr>"

section \<open>Theorems about contrast correction\<close>

lemma getCurrentScheme_light_or_dark:
  "getCurrentScheme setting matches = ''light'' \<or> getCurrentScheme setting matches = ''dark''"
  by (simp add: getCurrentScheme_def)

lemma relativeLuminance_black: "relativeLuminance (rgba_array 0 0 0 1) = 0"
  by (simp add: relativeLuminance_def rgba_array_def linear_channel_def)

lemma relativeLuminance_white: "relativeLuminance (rgba_array 255 255 255 1) = 255"
  by (simp add: relativeLuminance_def rgba_array_def linear_channel_def)

lemma contrastRatio_black_black:
  "contrastRatio (rgba_array 0 0 0 1) (rgba_array 0 0 0 1) = 1"
  by (simp add: contrastRatio_def relativeLuminance_black)

lemma contrastRatio_black_white:
  "contrastRatio (rgba_array 0 0 0 1) (rgba_array 255 255 255 1) = 21"
  by (simp add: contrastRatio_def relativeLuminance_black relativeLuminance_white)

lemma contrastCorrection_black_light:
  "contrastCorrection pref0 (current_of ''light'') (rgba_array 0 0 0 1)
     = Some \<lparr>colour_of = rgba_array 0 0 0 1, scheme_of = ''light''\<rparr>"
  by (simp add: contrastCorrection_def contrastRatio_black_black contrastRatio_black_white
      relativeLuminance_black pref0_def current_of_def dimColour_def rgba_def)

text \<open>
  C1, evaluated at the failing input. In the light scheme, with opposite schemes not
  allowed and a minimum contrast of 4.5 (below the largest achievable ratio, 21, which
  pure white has against pure black), the correction of pure black computes a dimming
  magnitude of 0 and returns pure black itself, whose contrast ratio against the
  light scheme's black foreground is 1, below the minimum.
\<close>

theorem contrastCorrection_black_below_minimum:
  "contrastCorrection pref0 (current_of ''light'') (rgba_array 0 0 0 1)
     = Some \<lparr>colour_of = rgba_array 0 0 0 1, scheme_of = ''light''\<rparr>
   \<and> contrastRatio (rgba_array 0 0 0 1) (rgba_array 0 0 0 1) < minContrast_light pref0
   \<and> minContrast_light pref0
       < contrastRatio (rgba_array 255 255 255 1) (rgba_array 0 0 0 1)"
proof -
  have wb: "contrastRatio (rgba_array 255 255 255 1) (rgba_array 0 0 0 1) = 21"
    by (simp add: contrastRatio_def relativeLuminance_black relativeLuminance_white)
  have m: "minContrast_light pref0 = 4.5"
    by (simp add: pref0_def)
  show ?thesis
    by (simp add: contrastCorrection_black_light contrastRatio_black_black wb m)
qed

text \<open>
  C9. When the current scheme is "light" or "dark", \<open>contrastCorrection\<close> returns a
  defined pair of a colour and a scheme for every input colour and every preference
  state: the fall-through past the final branch (the value \<open>None\<close>) is not reached.
\<close>

theorem contrastCorrection_total:
  assumes "scheme cur = ''light'' \<or> scheme cur = ''dark''"
  shows "\<exists>res. contrastCorrection pref cur colour = Some res"
  using assms by (auto simp: contrastCorrection_def Let_def)

theorem contrastCorrection_total_witness:
  "(scheme (current_of ''dark'') = ''light'' \<or> scheme (current_of ''dark'') = ''dark'')
   \<and> (\<exists>res. contrastCorrection pref0 (current_of ''dark'') (rgba_array 10 10 10 1)
               = Some res)"
proof -
  have h: "scheme (current_of ''dark'') = ''light'' \<or> scheme (current_of ''dark'') = ''dark''"
    by (simp add: current_of_def)
  show ?thesis
    using h contrastCorrection_total [OF h, of pref0 "rgba_array 10 10 10 1"] by simp
qed

lemma contrastCorrection_falls_through:
  "contrastCorrection pref0 (current_of ''auto'') (rgba_array 0 0 0 1) = None"
  by (simp add: contrastCorrection_def contrastRatio_black_black contrastRatio_black_white
      pref0_def current_of_def)

section \<open>Theorems about \<open>setFrameColour\<close>\<close>

lemma colourCode_FALLBACK:
  "colourCode cur ''FALLBACK''
     = Some \<lparr>light = Some (fallbackColour_light cur), dark = Some (fallbackColour_dark cur)\<rparr>"
  by (simp add: colourCode_def)

lemma colourCode_IMAGEVIEWER:
  "colourCode cur ''IMAGEVIEWER'' = Some \<lparr>light = None, dark = Some (rgba_array 33 33 33 1)\<rparr>"
  by (simp add: colourCode_def)

text \<open>
  C5. Given a colour code (a string), \<open>setFrameColour\<close> never calls \<open>contrastCorrection\<close>.
  Given a literal colour, it calls \<open>contrastCorrection\<close> on that colour first, exactly
  once, and the only \<open>applyTheme\<close> call that follows passes the colour and the scheme of
  the correction's result.
\<close>

theorem setFrameColour_correction_only_for_literals:
  "list_all (\<lambda>e. \<not> is_ContrastCorrection e) (setFrameColour pref cur w (Code code))
   \<and> (\<exists>rest. setFrameColour pref cur w (Literal c) = ContrastCorrection c # rest
        \<and> list_all (\<lambda>e. \<not> is_ContrastCorrection e) rest
        \<and> rest = (case contrastCorrection pref cur c of
               None \<Rightarrow> [Throw TypeError]
             | Some res \<Rightarrow> [ApplyTheme w (Some (colour_of res)) (scheme_of res)]))"
  by (auto simp: setFrameColour_def colourCode_FALLBACK split: option.splits)

text \<open>
  C10. For a colour code whose table entry defines no colour for the current scheme: if
  the entry defines a colour for the reversed scheme and \<open>allowDarkLight\<close> is set, that
  colour is applied under the reversed scheme; otherwise the \<open>FALLBACK\<close> colour of the
  current scheme is applied under the current scheme.
\<close>

theorem setFrameColour_token_without_current_scheme:
  assumes "scheme cur = ''light'' \<or> scheme cur = ''dark''"
    and "colourCode cur code = Some entry"
    and "entry_get entry (scheme cur) = None"
  shows "setFrameColour pref cur w (Code code) =
    (if entry_get entry (reversedScheme cur) \<noteq> None \<and> allowDarkLight pref
     then [ApplyTheme w (entry_get entry (reversedScheme cur)) (reversedScheme cur)]
     else [ApplyTheme w
             (Some (if scheme cur = ''light'' then fallbackColour_light cur
                    else fallbackColour_dark cur))
             (scheme cur)])"
proof -
  have fallback: "entry_get \<lparr>light = Some (fallbackColour_light cur),
                              dark = Some (fallbackColour_dark cur)\<rparr> (scheme cur)
      = Some (if scheme cur = ''light'' then fallbackColour_light cur
              else fallbackColour_dark cur)"
    using assms(1) by (auto simp: entry_get_def)
  show ?thesis
    using assms(2,3) by (simp add: setFrameColour_def colourCode_FALLBACK fallback)
qed

theorem setFrameColour_token_without_current_scheme_witness:
  "setFrameColour pref0 (current_of ''light'') 7 (Code ''IMAGEVIEWER'')
     = [ApplyTheme 7 (Some (rgba_array 255 255 255 1)) ''light'']
   \<and> setFrameColour (pref0\<lparr>allowDarkLight := True\<rparr>) (current_of ''light'') 7
        (Code ''IMAGEVIEWER'')
     = [ApplyTheme 7 (Some (rgba_array 33 33 33 1)) ''dark'']"
proof -
  have s: "scheme (current_of ''light'') = ''light'' \<or> scheme (current_of ''light'') = ''dark''"
    by (simp add: current_of_def)
  have e: "colourCode (current_of ''light'') ''IMAGEVIEWER''
             = Some \<lparr>light = None, dark = Some (rgba_array 33 33 33 1)\<rparr>"
    by (rule colourCode_IMAGEVIEWER)
  have n: "entry_get \<lparr>light = None, dark = Some (rgba_array 33 33 33 1)\<rparr>
             (scheme (current_of ''light'')) = None"
    by (simp add: entry_get_def current_of_def)
  show ?thesis
    using setFrameColour_token_without_current_scheme [OF s e n, of pref0 7]
      setFrameColour_token_without_current_scheme
        [OF s e n, of "pref0\<lparr>allowDarkLight := True\<rparr>" 7]
    by (simp add: entry_get_def reversedScheme_def current_of_def pref0_def)
qed

section \<open>Theorems about \<open>applyTheme\<close>\<close>

lemma applyTheme_updates_once:
  "applyTheme pref w c ''light'' = [(w, theme_light pref c)]
   \<and> applyTheme pref w c ''dark'' = [(w, theme_dark pref c)]
   \<and> (s \<noteq> ''light'' \<and> s \<noteq> ''dark'' \<longrightarrow> applyTheme pref w c s = [])"
  by (simp add: applyTheme_def)

lemma palette_keys_distinct:
  "distinct (map fst (colors (theme_light pref c)))
   \<and> distinct (map fst (colors (theme_dark pref c)))"
  by (simp add: theme_light_def theme_dark_def)

text \<open>
  C6, as stated, fails for the surface \<open>toolbar_field_border\<close>: in the light scheme its
  value is the fixed string \<open>rgba(0, 0, 0, 0)\<close>, whatever the base colour and the
  coefficient \<open>toolbarFieldBorder\<close> are, and not the base dimmed by
  \<open>-toolbarFieldBorder * 1.5\<close>.
\<close>

theorem applyTheme_light_field_border_counterexample:
  "palette pref0 (rgba_array 255 255 255 1) ''light'' ''toolbar_field_border''
     = Some (Css ''rgba(0, 0, 0, 0)'')
   \<and> palette (pref0\<lparr>toolbarFieldBorder := 0.5\<rparr>) (rgba_array 10 10 10 1) ''light''
        ''toolbar_field_border'' = Some (Css ''rgba(0, 0, 0, 0)'')
   \<and> palette pref0 (rgba_array 255 255 255 1) ''light'' ''toolbar_field_border''
     \<noteq> Some (Dimmed (dimColour (rgba_array 255 255 255 1) (- toolbarFieldBorder pref0 * 1.5)))"
  by (simp add: palette_def applyTheme_def theme_light_def)

text \<open>
  C6, amended. For every base colour and coefficient bundle, the palette dims the base by
  \<open>-coefficient * 1.5\<close> in the light scheme and by \<open>+coefficient\<close> in the dark scheme for the
  surfaces frame, frame_inactive, tab_selected, toolbar, toolbar_field,
  toolbar_field_focus, sidebar and popup; the border surfaces toolbar_bottom_separator,
  sidebar_border and popup_border add the border's coefficient to the base surface's
  one; toolbar_field_border is dimmed by \<open>toolbarFieldBorder\<close> in the dark scheme only and
  is the transparent colour \<open>rgba(0, 0, 0, 0)\<close> in the light scheme. In particular the
  toolbar key is the base dimmed by the toolbar coefficient in the dark scheme.
\<close>

theorem applyTheme_palette:
  "palette pref c ''light'' ''frame'' = Some (Dimmed (dimColour c (- tabbar pref * 1.5)))
   \<and> palette pref c ''light'' ''frame_inactive'' = Some (Dimmed (dimColour c (- tabbar pref * 1.5)))
   \<and> palette pref c ''light'' ''tab_selected'' = Some (Dimmed (dimColour c (- tabSelected pref * 1.5)))
   \<and> palette pref c ''light'' ''toolbar'' = Some (Dimmed (dimColour c (- toolbar pref * 1.5)))
   \<and> palette pref c ''light'' ''toolbar_bottom_separator''
       = Some (Dimmed (dimColour c ((- toolbarBorder pref - toolbar pref) * 1.5)))
   \<and> palette pref c ''light'' ''toolbar_field'' = Some (Dimmed (dimColour c (- toolbarField pref * 1.5)))
   \<and> palette pref c ''light'' ''toolbar_field_border'' = Some (Css ''rgba(0, 0, 0, 0)'')
   \<and> palette pref c ''light'' ''toolbar_field_focus''
       = Some (Dimmed (dimColour c (- toolbarFieldOnFocus pref * 1.5)))
   \<and> palette pref c ''light'' ''sidebar'' = Some (Dimmed (dimColour c (- sidebar pref * 1.5)))
   \<and> palette pref c ''light'' ''sidebar_border''
       = Some (Dimmed (dimColour c ((- sidebar pref - sidebarBorder pref) * 1.5)))
   \<and> palette pref c ''light'' ''popup'' = Some (Dimmed (dimColour c (- popup pref * 1.5)))
   \<and> palette pref c ''light'' ''popup_border''
       = Some (Dimmed (dimColour c ((- popup pref - popupBorder pref) * 1.5)))
   \<and> palette pref c ''dark'' ''frame'' = Some (Dimmed (dimColour c (tabbar pref)))
   \<and> palette pref c ''dark'' ''frame_inactive'' = Some (Dimmed (dimColour c (tabbar pref)))
   \<and> palette pref c ''dark'' ''tab_selected'' = Some (Dimmed (dimColour c (tabSelected pref)))
   \<and> palette pref c ''dark'' ''toolbar'' = Some (Dimmed (dimColour c (toolbar pref)))
   \<and> palette pref c ''dark'' ''toolbar_bottom_separator''
       = Some (Dimmed (dimColour c (toolbarBorder pref + toolbar pref)))
   \<and> palette pref c ''dark'' ''toolbar_field'' = Some (Dimmed (dimColour c (toolbarField pref)))
   \<and> palette pref c ''dark'' ''toolbar_field_border''
       = Some (Dimmed (dimColour c (toolbarFieldBorder pref)))
   \<and> palette pref c ''dark'' ''toolbar_field_focus''
       = Some (Dimmed (dimColour c (toolbarFieldOnFocus pref)))
   \<and> palette pref c ''dark'' ''sidebar'' = Some (Dimmed (dimColour c (sidebar pref)))
   \<and> palette pref c ''dark'' ''sidebar_border''
       = Some (Dimmed (dimColour c (sidebar pref + sidebarBorder pref)))
   \<and> palette pref c ''dark'' ''popup'' = Some (Dimmed (dimColour c (popup pref)))
   \<and> palette pref c ''dark'' ''popup_border''
       = Some (Dimmed (dimColour c (popup pref + popupBorder pref)))"
  by (simp add: palette_def applyTheme_def theme_light_def theme_dark_def)

section \<open>Theorems about the classification of about: pages\<close>

text \<open>
  C7. \<open>getAboutPageColour\<close> returns the table's colour for the current scheme when the
  table has one; otherwise the table's colour for the reversed scheme when it has one and
  \<open>allowDarkLight\<close> is set; otherwise the code \<open>DEFAULT\<close>. In particular the pathname
  \<open>crashparent\<close> with no table entry and \<open>allowDarkLight\<close> false yields \<open>DEFAULT\<close>.
\<close>

theorem getAboutPageColour_lookup:
  "(table_get tbl pathname (scheme cur) = Some v
      \<longrightarrow> getAboutPageColour conv tbl pref cur pathname = conv v)
   \<and> (table_get tbl pathname (scheme cur) = None
        \<and> table_get tbl pathname (reversedScheme cur) = Some v' \<and> allowDarkLight pref
      \<longrightarrow> getAboutPageColour conv tbl pref cur pathname = conv v')
   \<and> (table_get tbl pathname (scheme cur) = None
        \<and> (table_get tbl pathname (reversedScheme cur) = None \<or> \<not> allowDarkLight pref)
      \<longrightarrow> getAboutPageColour conv tbl pref cur pathname = Code ''DEFAULT'')
   \<and> (tbl ''crashparent'' = None \<and> \<not> allowDarkLight pref
      \<longrightarrow> getAboutPageColour conv tbl pref cur ''crashparent'' = Code ''DEFAULT'')"
  by (auto simp: getAboutPageColour_def table_get_def)

theorem getAboutPageColour_lookup_witness:
  "getAboutPageColour example_rgba_string example_aboutPageColour pref0 (current_of ''light'')
       ''blank'' = Literal (rgba_array 255 255 255 1)
   \<and> getAboutPageColour example_rgba_string example_aboutPageColour
       (pref0\<lparr>allowDarkLight := True\<rparr>) (current_of ''light'') ''privatebrowsing''
       = Literal (rgba_array 37 0 62 1)
   \<and> getAboutPageColour example_rgba_string example_aboutPageColour pref0 (current_of ''light'')
       ''privatebrowsing'' = Code ''DEFAULT''
   \<and> getAboutPageColour example_rgba_string example_aboutPageColour pref0 (current_of ''dark'')
       ''crashparent'' = Code ''DEFAULT''"
proof -
  have l: "scheme (current_of ''light'') = ''light''"
    and r: "reversedScheme (current_of ''light'') = ''dark''"
    by (simp_all add: current_of_def reversedScheme_def)
  have a: "table_get example_aboutPageColour ''blank'' ''light'' = Some ''rgb(255, 255, 255)''"
    and b: "table_get example_aboutPageColour ''privatebrowsing'' ''light'' = None"
    and c: "table_get example_aboutPageColour ''privatebrowsing'' ''dark''
              = Some ''rgb(37, 0, 62)''"
    and d: "example_aboutPageColour ''crashparent'' = None"
    by (simp_all add: table_get_def example_aboutPageColour_def)
  have p: "\<not> allowDarkLight pref0" and q: "allowDarkLight (pref0\<lparr>allowDarkLight := True\<rparr>)"
    by (simp_all add: pref0_def)
  show ?thesis
    using getAboutPageColour_lookup
        [of example_aboutPageColour "''blank''" "current_of ''light''"
          "''rgb(255, 255, 255)''" example_rgba_string pref0 "''rgb(37, 0, 62)''"]
      getAboutPageColour_lookup
        [of example_aboutPageColour "''privatebrowsing''" "current_of ''light''"
          "''rgb(255, 255, 255)''" example_rgba_string "pref0\<lparr>allowDarkLight := True\<rparr>"
          "''rgb(37, 0, 62)''"]
      getAboutPageColour_lookup
        [of example_aboutPageColour "''privatebrowsing''" "current_of ''light''"
          "''rgb(255, 255, 255)''" example_rgba_string pref0 "''rgb(37, 0, 62)''"]
      getAboutPageColour_lookup
        [of example_aboutPageColour "''crashparent''" "current_of ''dark''"
          "''rgb(255, 255, 255)''" example_rgba_string pref0 "''rgb(37, 0, 62)''"]
    by (simp add: l r a b c d p q example_rgba_string_def)
qed

section \<open>Theorems about \<open>getWebPageColour\<close>\<close>

lemma rule_body_cases:
  "rule_body H pref u site cr = Inl TypeError \<or> rule_body H pref u site cr = Inr (Normal cr)"
  by (simp add: rule_body_def assign_const_def split: option.splits)

lemma for_in_customRule_unchanged:
  "for_in_customRule H pref u sites cr = Inr cr"
proof (induction sites)
  case Nil
  show ?case by simp
next
  case (Cons site sites)
  from rule_body_cases [of H pref u site cr] show ?case
    by (auto simp: Cons.IH)
qed

lemma getWebPageColour_customRule_always_null:
  "list_all (\<lambda>request. conf_customRule request = None)
     (fst (getWebPageColour H send pref tab_arg))"
  by (simp add: getWebPageColour_def for_in_customRule_unchanged Let_def split: option.splits)

text \<open>
  C2, evaluated at the failing input. The custom rules have an entry whose key equals the
  tab's URL exactly (and a later one whose key equals its hostname); the message sent to
  the content script nevertheless carries \<open>customRule: null\<close>.
\<close>

theorem getWebPageColour_sends_null_customRule:
  "map_of (customRule (pref0\<lparr>customRule := example_rules\<rparr>)) (url example_tab)
     = Some (Literal (rgba_array 255 0 0 1))
   \<and> fst (getWebPageColour example_URL_hostname no_response
            (pref0\<lparr>customRule := example_rules\<rparr>) (Some example_tab))
     = [\<lparr>reason = ''COLOUR_REQUEST'', conf_dynamic = True, conf_noThemeColour = False,
         conf_customRule = None\<rparr>]"
  by (simp add: getWebPageColour_def for_in_customRule_unchanged example_tab_def
      example_rules_def pref0_def Let_def)

lemma for_in_customRule_trace_result:
  "snd (for_in_customRule_trace H pref u sites cr) = for_in_customRule H pref u sites cr"
proof (induction sites arbitrary: cr)
  case Nil
  show ?case by simp
next
  case (Cons site sites)
  show ?case
  proof (cases "rule_body H pref u site cr")
    case (Inl e)
    then show ?thesis by (simp add: Cons.IH)
  next
    case (Inr c)
    then show ?thesis by (cases c) (simp_all add: Cons.IH)
  qed
qed

lemma rule_body_other_key:
  assumes "H u = Some h" and "site \<noteq> u" and "site \<noteq> h"
  shows "rule_body H pref u site cr = Inr (Normal cr)"
  using assms by (auto simp: rule_body_def)

lemma for_in_customRule_trace_keys:
  assumes "list_all (\<lambda>entry. \<not> ended_with_break (snd entry))
             (fst (for_in_customRule_trace H pref u sites cr))"
  shows "map fst (fst (for_in_customRule_trace H pref u sites cr)) = sites"
  using assms
proof (induction sites arbitrary: cr)
  case Nil
  show ?case by simp
next
  case (Cons site sites)
  show ?case
  proof (cases "rule_body H pref u site cr")
    case (Inl e)
    with Cons.prems have "list_all (\<lambda>entry. \<not> ended_with_break (snd entry))
             (fst (for_in_customRule_trace H pref u sites cr))"
      by simp
    from Cons.IH [OF this] Inl show ?thesis by simp
  next
    case (Inr c)
    show ?thesis
    proof (cases c)
      case (Normal v)
      with Inr Cons.prems have "list_all (\<lambda>entry. \<not> ended_with_break (snd entry))
             (fst (for_in_customRule_trace H pref u sites v))"
        by simp
      from Cons.IH [OF this] Inr Normal show ?thesis by simp
    next
      case (Break v)
      with Inr Cons.prems show ?thesis by simp
    qed
  qed
qed

lemma example_trace:
  "for_in_customRule_trace example_URL_hostname (pref0\<lparr>customRule := example_keyed_rules\<rparr>)
       ''https://example.com/'' example_keys None
     = ([(''not a url'', Inr (Normal None)), (''example.com'', Inl TypeError),
         (''other.org'', Inr (Normal None))], Inr None)"
  by (simp add: example_keys_def example_URL_hostname_def rule_body_def assign_const_def)

text \<open>
  C8, as stated, fails: a key that is not a valid URL causes no parse failure. Line 213
  parses the tab's URL, never the key. Here the key \<open>not a url\<close> is rejected by the URL
  parser, the tab's URL is accepted, and the iteration for that key ends normally, with
  no error to catch.
\<close>

theorem customRule_invalid_key_raises_no_error:
  "example_URL_hostname ''not a url'' = None
   \<and> example_URL_hostname (url example_tab) = Some ''example.com''
   \<and> rule_body example_URL_hostname (pref0\<lparr>customRule := example_keyed_rules\<rparr>)
        (url example_tab) ''not a url'' None = Inr (Normal None)"
  by (simp add: example_URL_hostname_def example_tab_def rule_body_def)

text \<open>
  C8, amended. For every URL parser, preference state, URL, list of keys and starting
  value the loop over the custom rules completes with a value and never throws. The
  iteration for a key that is not a valid URL and is not the hostname of the tab's
  (valid) URL ends without an error, and the loop goes on with the remaining keys. When
  the body of an iteration throws, the error is caught, that key is skipped and the loop
  goes on with the remaining keys from the same state. Errors never end the loop: unless
  an iteration ends with \<open>break\<close>, every key is examined, in order.
\<close>

theorem customRule_lookup_skips_and_continues:
  "(\<exists>result. for_in_customRule H pref u sites cr = Inr result)
   \<and> snd (for_in_customRule_trace H pref u sites cr) = for_in_customRule H pref u sites cr
   \<and> (H site = None \<and> H u = Some h \<and> site \<noteq> h \<longrightarrow>
        rule_body H pref u site cr = Inr (Normal cr)
        \<and> for_in_customRule_trace H pref u (site # sites) cr
            = ((site, Inr (Normal cr)) # fst (for_in_customRule_trace H pref u sites cr),
               snd (for_in_customRule_trace H pref u sites cr)))
   \<and> (rule_body H pref u site cr = Inl e \<longrightarrow>
        for_in_customRule_trace H pref u (site # sites) cr
          = ((site, Inl e) # fst (for_in_customRule_trace H pref u sites cr),
             snd (for_in_customRule_trace H pref u sites cr)))
   \<and> (list_all (\<lambda>entry. \<not> ended_with_break (snd entry))
          (fst (for_in_customRule_trace H pref u sites cr)) \<longrightarrow>
        map fst (fst (for_in_customRule_trace H pref u sites cr)) = sites)"
proof (intro conjI impI)
  show "\<exists>result. for_in_customRule H pref u sites cr = Inr result"
    by (simp add: for_in_customRule_unchanged)
  show "snd (for_in_customRule_trace H pref u sites cr) = for_in_customRule H pref u sites cr"
    by (rule for_in_customRule_trace_result)
next
  assume key: "H site = None \<and> H u = Some h \<and> site \<noteq> h"
  then have "site \<noteq> u" by auto
  with key show normal: "rule_body H pref u site cr = Inr (Normal cr)"
    by (simp add: rule_body_other_key)
  then show "for_in_customRule_trace H pref u (site # sites) cr
            = ((site, Inr (Normal cr)) # fst (for_in_customRule_trace H pref u sites cr),
               snd (for_in_customRule_trace H pref u sites cr))"
    by simp
next
  assume "rule_body H pref u site cr = Inl e"
  then show "for_in_customRule_trace H pref u (site # sites) cr
          = ((site, Inl e) # fst (for_in_customRule_trace H pref u sites cr),
             snd (for_in_customRule_trace H pref u sites cr))"
    by simp
next
  assume "list_all (\<lambda>entry. \<not> ended_with_break (snd entry))
          (fst (for_in_customRule_trace H pref u sites cr))"
  then show "map fst (fst (for_in_customRule_trace H pref u sites cr)) = sites"
    by (rule for_in_customRule_trace_keys)
qed

theorem customRule_lookup_skips_and_continues_witness:
  "example_URL_hostname ''not a url'' = None
   \<and> example_URL_hostname ''https://example.com/'' = Some ''example.com''
   \<and> rule_body example_URL_hostname (pref0\<lparr>customRule := example_keyed_rules\<rparr>)
        ''https://example.com/'' ''not a url'' None = Inr (Normal None)
   \<and> rule_body example_URL_hostname (pref0\<lparr>customRule := example_keyed_rules\<rparr>)
        ''https://example.com/'' ''example.com'' None = Inl TypeError
   \<and> for_in_customRule_trace example_URL_hostname (pref0\<lparr>customRule := example_keyed_rules\<rparr>)
        ''https://example.com/'' (''example.com'' # [''other.org'']) None
      = ((''example.com'', Inl TypeError)
           # fst (for_in_customRule_trace example_URL_hostname
                    (pref0\<lparr>customRule := example_keyed_rules\<rparr>)
                    ''https://example.com/'' [''other.org''] None),
         snd (for_in_customRule_trace example_URL_hostname
                (pref0\<lparr>customRule := example_keyed_rules\<rparr>)
                ''https://example.com/'' [''other.org''] None))
   \<and> map fst (fst (for_in_customRule_trace example_URL_hostname
                      (pref0\<lparr>customRule := example_keyed_rules\<rparr>)
                      ''https://example.com/'' example_keys None)) = example_keys
   \<and> (\<exists>result. for_in_customRule example_URL_hostname
          (pref0\<lparr>customRule := example_keyed_rules\<rparr>)
          ''https://example.com/'' example_keys None = Inr result)"
proof -
  have k: "example_URL_hostname ''not a url'' = None"
    and t: "example_URL_hostname ''https://example.com/'' = Some ''example.com''"
    by (simp_all add: example_URL_hostname_def)
  have d: "''not a url'' \<noteq> ''example.com''"
    by simp
  have b: "rule_body example_URL_hostname (pref0\<lparr>customRule := example_keyed_rules\<rparr>)
        ''https://example.com/'' ''example.com'' None = Inl TypeError"
    by (simp add: rule_body_def example_URL_hostname_def assign_const_def)
  have n: "list_all (\<lambda>entry. \<not> ended_with_break (snd entry))
      (fst (for_in_customRule_trace example_URL_hostname
              (pref0\<lparr>customRule := example_keyed_rules\<rparr>)
              ''https://example.com/'' example_keys None))"
    by (simp add: example_trace)
  show ?thesis
    using k t d b n
      customRule_lookup_skips_and_continues
        [of example_URL_hostname "pref0\<lparr>customRule := example_keyed_rules\<rparr>"
          "''https://example.com/''" example_keys None
          "''not a url''" "''example.com''" TypeError]
      customRule_lookup_skips_and_continues
        [of example_URL_hostname "pref0\<lparr>customRule := example_keyed_rules\<rparr>"
          "''https://example.com/''" "[''other.org'']" None
          "''example.com''" "''example.com''" TypeError]
    by blast
qed

text \<open>
  The test of line 242 for a title of plain characters: it holds exactly when the URL
  ends with \<open>http://\<close> or \<open>https://\<close> followed by the title.
\<close>

lemma rx_parse_plain_step:
  assumes "plain_char c" and "rest \<noteq> []" and "hd rest \<noteq> CHR ''?''"
  shows "rx_parse (c # rest) = map_option ((#) (One (Lit c))) (rx_parse rest)"
proof (cases rest)
  case Nil
  with assms show ?thesis by simp
next
  case (Cons d cs)
  with assms show ?thesis
    by (simp add: plain_char_def rx_atom_of_def)
qed

lemma rx_parse_plain_title:
  assumes "list_all plain_char t"
  shows "rx_parse (t @ ''$'') = Some (map (\<lambda>c. One (Lit c)) t @ [EndAnchor])"
  using assms
proof (induction t)
  case Nil
  show ?case by simp
next
  case (Cons c t)
  then have c: "plain_char c" and t: "list_all plain_char t"
    by simp_all
  have "hd (t @ ''$'') \<noteq> CHR ''?''"
    using t by (cases t) (simp_all add: plain_char_def)
  then have "rx_parse (c # (t @ ''$'')) = map_option ((#) (One (Lit c))) (rx_parse (t @ ''$''))"
    using c by (intro rx_parse_plain_step) simp_all
  with Cons.IH [OF t] show ?case by simp
qed

lemma rx_match_here_literals:
  "rx_match_here (map (\<lambda>c. One (Lit c)) t @ items) s
     = (\<exists>rest. s = t @ rest \<and> rx_match_here items rest)"
proof (induction t arbitrary: s)
  case Nil
  show ?case by simp
next
  case (Cons c t)
  show ?case
    by (cases s) (auto simp: Cons.IH)
qed

lemma rx_search_suffix:
  "rx_search items u = (\<exists>v. suffix v u \<and> rx_match_here items v)"
proof (induction u)
  case Nil
  show ?case by simp
next
  case (Cons x xs)
  show ?case
    by (auto simp: Cons.IH suffix_Cons)
qed


lemma rx_match_here_Opt:
  "rx_match_here (Opt (Lit c) # items) r
     = ((\<exists>xs. r = c # xs \<and> rx_match_here items xs) \<or> rx_match_here items r)"
  by (cases r) auto

lemma rx_parse_scheme_plain_title:
  assumes "list_all plain_char t"
  shows "rx_parse (''https?://'' @ t @ ''$'')
     = Some (map (\<lambda>c. One (Lit c)) ''http'' @ Opt (Lit CHR ''s'')
             # map (\<lambda>c. One (Lit c)) ''://'' @ map (\<lambda>c. One (Lit c)) t @ [EndAnchor])"
proof -
  have h: "hd (t @ ''$'') \<noteq> CHR ''?''"
    using assms by (cases t) (simp_all add: plain_char_def)
  have slash: "rx_parse (CHR ''/'' # (t @ ''$''))
          = Some (One (Lit CHR ''/'') # map (\<lambda>c. One (Lit c)) t @ [EndAnchor])"
    using h rx_parse_plain_step [of "CHR ''/''" "t @ ''$''"]
    by (simp add: plain_char_def rx_other_syntax_def rx_parse_plain_title [OF assms])
  show ?thesis
    by (simp add: slash rx_other_syntax_def rx_atom_of_def)
qed

lemma rx_match_here_scheme_title:
  "rx_match_here (map (\<lambda>c. One (Lit c)) ''http'' @ Opt (Lit CHR ''s'')
             # map (\<lambda>c. One (Lit c)) ''://'' @ map (\<lambda>c. One (Lit c)) t @ [EndAnchor]) v
   = (v = ''http://'' @ t \<or> v = ''https://'' @ t)"
proof -
  have tail: "\<And>s. rx_match_here (map (\<lambda>c. One (Lit c)) ''://''
                 @ map (\<lambda>c. One (Lit c)) t @ [EndAnchor]) s = (s = ''://'' @ t)"
    unfolding rx_match_here_literals by auto
  show ?thesis
    unfolding rx_match_here_literals rx_match_here_Opt tail by auto
qed

lemma RegExp_match_plain_title:
  assumes "list_all plain_char t"
  shows "RegExp_match (''https?://'' @ t @ ''$'') u
     = Inr (suffix (''http://'' @ t) u \<or> suffix (''https://'' @ t) u)"
proof -
  have no_paren: "CHR ''('' \<notin> set t"
    using assms by (auto simp: list_all_iff plain_char_def rx_other_syntax_def)
  have g: "\<not> unterminated_group (''https?://'' @ t @ ''$'')"
    using no_paren by (simp add: unterminated_group_def)
  let ?items = "map (\<lambda>c. One (Lit c)) ''http'' @ Opt (Lit CHR ''s'')
             # map (\<lambda>c. One (Lit c)) ''://'' @ map (\<lambda>c. One (Lit c)) t @ [EndAnchor]"
  have p: "rx_parse (''https?://'' @ t @ ''$'') = Some ?items"
    by (rule rx_parse_scheme_plain_title [OF assms])
  have "rx_search ?items u
          = (\<exists>v. suffix v u \<and> (v = ''http://'' @ t \<or> v = ''https://'' @ t))"
    by (simp only: rx_search_suffix rx_match_here_scheme_title)
  also have "\<dots> = (suffix (''http://'' @ t) u \<or> suffix (''https://'' @ t) u)"
    by blast
  finally have s: "rx_search ?items u
          = (suffix (''http://'' @ t) u \<or> suffix (''https://'' @ t) u)" .
  show ?thesis
    by (simp only: RegExp_match_def g if_False p option.case s)
qed

lemma getWebPageColour_no_response_chain:
  assumes "\<And>request. send (id_tab t) request = None"
  shows "snd (getWebPageColour H send pref (Some t)) =
     (if prefix ''data:image'' (url t) then Inr (Code ''IMAGEVIEWER'')
      else if suffix ''.pdf'' (url t) \<or> suffix ''.pdf'' (title t) then Inr (Code ''PDFVIEWER'')
      else if \<exists>icon. favIconUrl t = Some icon \<and> prefix ''chrome:'' icon then
        Inr (Code ''DEFAULT'')
      else case RegExp_match (''https?://'' @ title t @ ''$'') (url t) of
             Inl e \<Rightarrow> Inl e
           | Inr matched \<Rightarrow> Inr (Code (if matched then ''PLAINTEXT'' else ''FALLBACK'')))"
  using assms
  by (auto simp: getWebPageColour_def for_in_customRule_unchanged Let_def
      split: option.splits sum.splits)

lemma getWebPageColour_plaintext_is_suffix_test:
  assumes "\<And>request. send (id_tab t) request = None"
    and "\<not> prefix ''data:image'' (url t)"
    and "\<not> suffix ''.pdf'' (url t)" and "\<not> suffix ''.pdf'' (title t)"
    and "favIconUrl t = None"
    and "list_all plain_char (title t)"
  shows "snd (getWebPageColour H send pref (Some t)) =
     Inr (Code (if suffix (''http://'' @ title t) (url t)
                   \<or> suffix (''https://'' @ title t) (url t)
                then ''PLAINTEXT'' else ''FALLBACK''))"
proof -
  have "snd (getWebPageColour H send pref (Some t)) =
      (case RegExp_match (''https?://'' @ title t @ ''$'') (url t) of
         Inl e \<Rightarrow> Inl e
       | Inr matched \<Rightarrow> Inr (Code (if matched then ''PLAINTEXT'' else ''FALLBACK'')))"
    using assms(2-5) getWebPageColour_no_response_chain [of send t H pref] assms(1)
    by simp
  then show ?thesis
    by (simp only: RegExp_match_plain_title [OF assms(6)] sum.case)
qed

text \<open>
  C4, evaluated at the failing input. The tab shows a plain-text document whose URL has a
  query string; the content script gives no response; the URL is textually the https URL
  formed from the title. The \<open>?\<close> of the title is read as a quantifier of the regular
  expression, the test fails and the result is \<open>FALLBACK\<close>, not \<open>PLAINTEXT\<close>. Conversely a
  URL that merely ends with an http URL formed from the title is classified \<open>PLAINTEXT\<close>,
  the expression not being anchored at its start.
\<close>

theorem getWebPageColour_plaintext_test:
  "url text_tab = ''https://'' @ title text_tab
   \<and> snd (getWebPageColour example_URL_hostname no_response pref0 (Some text_tab))
       = Inr (Code ''FALLBACK'')
   \<and> url redirect_tab \<noteq> ''http://'' @ title redirect_tab
   \<and> url redirect_tab \<noteq> ''https://'' @ title redirect_tab
   \<and> snd (getWebPageColour example_URL_hostname no_response pref0 (Some redirect_tab))
       = Inr (Code ''PLAINTEXT'')"
  by (simp add: getWebPageColour_def pref0_def text_tab_def redirect_tab_def no_response_def
      Let_def RegExp_match_def unterminated_group_def rx_other_syntax_def rx_atom_of_def
      suffix_to_prefix)

lemma getWebPageColour_title_syntax_error:
  "snd (getWebPageColour example_URL_hostname no_response pref0 (Some group_tab))
     = Inl SyntaxError"
  by (simp add: getWebPageColour_def pref0_def group_tab_def no_response_def
      Let_def RegExp_match_def unterminated_group_def suffix_to_prefix)

section \<open>Theorems about \<open>handleMessage\<close>\<close>

text \<open>
  C3, evaluated at the failing input. A message with reason \<open>SCRIPT_LOADED\<close> arrives from
  the active tab, whose content script would answer a colour request. The action calls
  \<open>getWebPageColour\<close> without the tab, which throws on \<open>tab.url\<close>: no request is sent to the
  page and \<open>setFrameColour\<close> is not called.
\<close>

theorem handleMessage_SCRIPT_LOADED_fails:
  "handleMessage example_URL_hostname (\<lambda>i request. Some (Literal (rgba_array 10 10 10 1))) pref0
     \<lparr>message_reason = Some ''SCRIPT_LOADED'', message_response = None\<rparr> (Some example_tab)
   = ([], Failed TypeError)"
  by (simp add: handleMessage_def in_actions_def getWebPageColour_def example_tab_def)

lemma handleMessage_inherited:
  "handleMessage example_URL_hostname no_response pref0
     \<lparr>message_reason = Some ''toString'', message_response = None\<rparr> (Some example_tab)
   = ([], Inherited_call ''toString'')"
  by (simp add: handleMessage_def in_actions_def Object_prototype_keys_def example_tab_def
      not_callable_without_arguments_def)

lemma handleMessage_inherited_throws:
  "handleMessage example_URL_hostname no_response pref0
     \<lparr>message_reason = Some ''__proto__'', message_response = None\<rparr> (Some example_tab)
   = ([], Failed TypeError)"
  by (simp add: handleMessage_def in_actions_def Object_prototype_keys_def example_tab_def
      not_callable_without_arguments_def)

lemma handleMessage_update:
  "sender_tab = None \<or> \<not> active (the sender_tab) \<or> \<not> in_actions (message_reason msg)
   \<Longrightarrow> handleMessage H send pref msg sender_tab = ([], Update)"
  by (auto simp: handleMessage_def split: option.splits)

end
